theory Spec2Isabelle
  imports Complex_Main "HOL-Library.Multiset"
begin

section \<open>Python values, errors and the HTTP boundary\<close>

text \<open>
  The notebooks and the strategy guide handle JSON documents and configuration
  dictionaries. A Python value is modelled by \<open>pyval\<close>; a dictionary keeps its items
  in insertion order with distinct keys, and a key is looked up with \<open>map_of\<close>.
  A floating-point number is carried as the rational it denotes; rounding is not
  modelled.
\<close>

datatype pyval =
    PNone
  | PBool bool
  | PInt int
  | PFloat rat
  | PStr string
  | PList "pyval list"
  | PDict "(string \<times> pyval) list"

datatype pyerror =
    TypeError
  | KeyError
  | IndexError
  | AttributeError
  | ValueError
  | JSONDecodeError
  | RequestFailed
  | FileNotFoundError
  | OSError

text \<open>Truth value of \<open>if x:\<close> and \<open>not x\<close>.\<close>

fun truthy :: "pyval \<Rightarrow> bool" where
  "truthy PNone = False"
| "truthy (PBool b) = b"
| "truthy (PInt i) = (i \<noteq> 0)"
| "truthy (PFloat r) = (r \<noteq> 0)"
| "truthy (PStr s) = (s \<noteq> [])"
| "truthy (PList xs) = (xs \<noteq> [])"
| "truthy (PDict kvs) = (kvs \<noteq> [])"

text \<open>\<open>d[k]\<close> with a string key: only a dictionary can answer.\<close>

fun getitem :: "pyval \<Rightarrow> string \<Rightarrow> pyerror + pyval" where
  "getitem (PDict kvs) k = (case map_of kvs k of None \<Rightarrow> Inl KeyError | Some v \<Rightarrow> Inr v)"
| "getitem _ k = Inl TypeError"

text \<open>\<open>d.get(k)\<close> and \<open>d.get(k, default)\<close>: only a dictionary has the method.\<close>

fun dict_get_default :: "pyval \<Rightarrow> string \<Rightarrow> pyval \<Rightarrow> pyerror + pyval" where
  "dict_get_default (PDict kvs) k dflt =
     Inr (case map_of kvs k of None \<Rightarrow> dflt | Some v \<Rightarrow> v)"
| "dict_get_default _ k dflt = Inl AttributeError"

definition dict_get :: "pyval \<Rightarrow> string \<Rightarrow> pyerror + pyval" where
  "dict_get d k = dict_get_default d k PNone"

text \<open>\<open>d[k] = v\<close> on a dictionary: an existing key keeps its place, a new one goes last.\<close>

fun setitem :: "(string \<times> pyval) list \<Rightarrow> string \<Rightarrow> pyval \<Rightarrow> (string \<times> pyval) list" where
  "setitem [] k v = [(k, v)]"
| "setitem ((k', v') # kvs) k v =
     (if k' = k then (k, v) # kvs else (k', v') # setitem kvs k v)"

text \<open>
  A request made with \<open>requests.post(url, json=payload)\<close>. What comes back is the
  environment's choice: the call raises, or it returns a response whose body
  \<open>response.json()\<close> can or cannot decode.
\<close>

record http_request =
  url :: string
  payload :: pyval

datatype body = NotJson | Json pyval

text \<open>\<open>os.getenv\<close> gives a string or \<open>None\<close>; an f-string prints \<open>None\<close> as its name.\<close>

definition fstr :: "string option \<Rightarrow> string" where
  "fstr k = (case k of None \<Rightarrow> ''None'' | Some s \<Rightarrow> s)"

definition env_val :: "string option \<Rightarrow> pyval" where
  "env_val k = (case k of None \<Rightarrow> PNone | Some s \<Rightarrow> PStr s)"

text \<open>\<open>str.upper()\<close> on ASCII text: the letters a to z move to A to Z.\<close>

definition upper_char :: "char \<Rightarrow> char" where
  "upper_char c =
     (let n = (of_char c :: nat) in if 97 \<le> n \<and> n \<le> 122 then char_of (n - 32) else c)"

definition upper :: "string \<Rightarrow> string" where
  "upper s = map upper_char s"

section \<open>Data frames\<close>

text \<open>
  A \<open>pandas.DataFrame\<close> of prices, as the strategy reads it: the column labels and
  the rows of cells, one cell per column. The row index (timestamps) is never read by
  the code below and is left out. A \<open>Series\<close> taken from a frame is a list of
  (label, value) pairs.
\<close>

record 'a dataframe =
  columns :: "string list"
  rows :: "'a list list"

text \<open>Keeps the first occurrence of every element, in order.\<close>

definition first_seen :: "'a list \<Rightarrow> 'a list" where
  "first_seen xs = rev (remdups (rev xs))"

text \<open>
  \<open>pd.DataFrame(data)\<close> for a list of records (dictionaries). The frame has one row
  per record, in order, and one column per key, in order of first appearance. Its
  cells are the values of the records as pandas converts them, column by column (a
  column with a missing cell or with mixed numbers changes its type); that conversion
  is the library's and is not modelled. The frame is therefore represented by the
  list it was built from, its column labels and its number of rows.
\<close>

record positions_frame =
  built_from :: "(string \<times> pyval) list list"
  labels :: "string list"
  height :: nat

definition DataFrame :: "(string \<times> pyval) list list \<Rightarrow> positions_frame" where
  "DataFrame data =
     \<lparr>built_from = data,
      labels = first_seen (concat (map (map fst) data)),
      height = length data\<rparr>"

text \<open>\<open>df.empty\<close>: one of the two axes has length zero.\<close>

definition df_empty :: "positions_frame \<Rightarrow> bool" where
  "df_empty df = (labels df = [] \<or> height df = 0)"

text \<open>\<open>df.iloc[i]\<close> with an integer: a negative position counts from the end.\<close>

definition position :: "nat \<Rightarrow> int \<Rightarrow> nat option" where
  "position n i =
     (if 0 \<le> i \<and> i < int n then Some (nat i)
      else if i < 0 \<and> - int n \<le> i then Some (nat (int n + i))
      else None)"

definition iloc :: "'a dataframe \<Rightarrow> int \<Rightarrow> pyerror + 'a list" where
  "iloc df i =
     (case position (length (rows df)) i of
        None \<Rightarrow> Inl IndexError
      | Some j \<Rightarrow> Inr (rows df ! j))"

text \<open>
  \<open>s.head(n)\<close> is \<open>s.iloc[:n]\<close> and \<open>s.tail(n)\<close> is \<open>s.iloc[-n:]\<close>, except that
  \<open>tail(0)\<close> is empty; a negative \<open>n\<close> leaves out that many items at the other end.
\<close>

definition head :: "int \<Rightarrow> 'a list \<Rightarrow> 'a list" where
  "head n xs = (if 0 \<le> n then take (nat n) xs else take (length xs - nat (- n)) xs)"

definition tail :: "int \<Rightarrow> 'a list \<Rightarrow> 'a list" where
  "tail n xs =
     (if n = 0 then []
      else if 0 < n then drop (length xs - nat n) xs
      else drop (nat (- n)) xs)"

section \<open>Equal weight allocation\<close>

text \<open>
  Modelled from the spec: the weight allocator is not among the source files; the
  configuration template only names the method in a comment, \<open>equal(1/n)\<close>. Following
  the specification, \<open>equal\<close> gives every symbol of the universe the weight
  \<open>1 / |symbols|\<close>.
\<close>

definition allocate_equal :: "string list \<Rightarrow> (string \<times> rat) list" where
  "allocate_equal symbols = map (\<lambda>s. (s, 1 / of_nat (length symbols))) symbols"

definition total_weight :: "(string \<times> rat) list \<Rightarrow> rat" where
  "total_weight ws = sum_list (map snd ws)"

section \<open>Position query after termination\<close>

text \<open>
  The cell ``Confirm position holding after Terminating'' of the trading notebook:
  \<^verbatim>\<open>
  def all_positions(user_key, productType, marginCoin):
      url = f"https://bitgettrader.fin.cloud.ainode.ai/{USER_KEY}/future/position/all-positions"
      payload = {"user_key": USER_KEY,
                 "all_positions": {"productType": productType,
                                   'marginCoin': marginCoin.upper()}}
      response = requests.post(url, json=payload)
      data = response.json()['data']
      df = pd.DataFrame(data)
      if df.empty:
          print('Everything has been liquidated')
      return df
  \<close>
  \<open>USER_KEY\<close> is the notebook's global, read from the environment. The endpoint's
  answer is the environment's: the call fails, the body is not JSON, it is an object
  without \<open>data\<close>, or \<open>data\<close> is a list of position records.
\<close>

datatype positions_reply =
    Unreachable
  | Undecodable
  | NoData
  | Data "(string \<times> pyval) list list"

record positions_run =
  requests :: "http_request list"
  stdout :: "string list"
  outcome :: "pyerror + positions_frame"

definition positions_request :: "string option \<Rightarrow> string \<Rightarrow> string \<Rightarrow> http_request" where
  "positions_request USER_KEY productType marginCoin =
     \<lparr>url = ''https://bitgettrader.fin.cloud.ainode.ai/'' @ fstr USER_KEY
              @ ''/future/position/all-positions'',
      payload = PDict [(''user_key'', env_val USER_KEY),
                       (''all_positions'',
                          PDict [(''productType'', PStr productType),
                                 (''marginCoin'', PStr (upper marginCoin))])]\<rparr>"

definition all_positions ::
  "string option \<Rightarrow> (http_request \<Rightarrow> positions_reply) \<Rightarrow>
   string \<Rightarrow> string \<Rightarrow> string \<Rightarrow> positions_run" where
  "all_positions USER_KEY post user_key productType marginCoin =
     (let req = positions_request USER_KEY productType marginCoin
      in case post req of
           Unreachable \<Rightarrow> \<lparr>requests = [req], stdout = [], outcome = Inl RequestFailed\<rparr>
         | Undecodable \<Rightarrow> \<lparr>requests = [req], stdout = [], outcome = Inl JSONDecodeError\<rparr>
         | NoData \<Rightarrow> \<lparr>requests = [req], stdout = [], outcome = Inl KeyError\<rparr>
         | Data data \<Rightarrow>
             (let df = DataFrame data
              in \<lparr>requests = [req],
                  stdout = (if df_empty df then [''Everything has been liquidated''] else []),
                  outcome = Inr df\<rparr>))"



section \<open>Starting a session\<close>

text \<open>
  The cell \<open># run-system\<close> of the trading notebook:
  \<^verbatim>\<open>
  data = {"strategy_name": strategy_name, "method": "rebalancing"}
  response = requests.post(url, json=data)
  try:
    session_id = response.json()['session_id']
    print('session id :',response.json()['session_id'])
    print('dashboard :',response.json()['dashboard_url'])
  except:
    print('Error :',response.json()['message']['message'])
    session_id = response.json()['message']['session_id']
    print('session id :',session_id)
    print('dashboard :',response.json()['message']['dashboard_url'])
  \<close>
  The state is the global \<open>session_id\<close> (unset before the first run) and what was
  printed, one (label, value) pair per \<open>print\<close>. An error inside \<open>try\<close> keeps the
  assignments and prints made before it and enters the handler; an error inside the
  handler leaves the cell.
\<close>

datatype reply = Raises | Replies body

record session_vars =
  session_id :: "pyval option"
  printed :: "(string \<times> pyval) list"

definition json :: "body \<Rightarrow> pyerror + pyval" where
  "json b = (case b of NotJson \<Rightarrow> Inl JSONDecodeError | Json v \<Rightarrow> Inr v)"

definition print_value :: "string \<Rightarrow> pyval \<Rightarrow> session_vars \<Rightarrow> session_vars" where
  "print_value label v s = s\<lparr>printed := printed s @ [(label, v)]\<rparr>"

definition run_system_request :: "string \<Rightarrow> string \<Rightarrow> http_request" where
  "run_system_request root_url strategy_name =
     \<lparr>url = root_url @ ''command/run-system'',
      payload = PDict [(''strategy_name'', PStr strategy_name),
                       (''method'', PStr ''rebalancing'')]\<rparr>"

definition direct_fields :: "body \<Rightarrow> session_vars \<Rightarrow> (pyerror + unit) \<times> session_vars" where
  "direct_fields b s =
     (case json b of
        Inl e \<Rightarrow> (Inl e, s)
      | Inr r \<Rightarrow>
          (case getitem r ''session_id'' of
             Inl e \<Rightarrow> (Inl e, s)
           | Inr sid \<Rightarrow>
               (let s1 = print_value ''session id :'' sid (s\<lparr>session_id := Some sid\<rparr>)
                in (case getitem r ''dashboard_url'' of
                      Inl e \<Rightarrow> (Inl e, s1)
                    | Inr d \<Rightarrow> (Inr (), print_value ''dashboard :'' d s1)))))"

definition nested_session :: "pyval \<Rightarrow> session_vars \<Rightarrow> (pyerror + unit) \<times> session_vars" where
  "nested_session w s1 =
     (case getitem w ''session_id'' of
        Inl e \<Rightarrow> (Inl e, s1)
      | Inr sid \<Rightarrow>
          (let s2 = print_value ''session id :'' sid (s1\<lparr>session_id := Some sid\<rparr>)
           in (case getitem w ''dashboard_url'' of
                 Inl e \<Rightarrow> (Inl e, s2)
               | Inr d \<Rightarrow> (Inr (), print_value ''dashboard :'' d s2))))"

definition nested_fields :: "body \<Rightarrow> session_vars \<Rightarrow> (pyerror + unit) \<times> session_vars" where
  "nested_fields b s =
     (case json b of
        Inl e \<Rightarrow> (Inl e, s)
      | Inr r \<Rightarrow>
          (case getitem r ''message'' of
             Inl e \<Rightarrow> (Inl e, s)
           | Inr w \<Rightarrow>
               (case getitem w ''message'' of
                  Inl e \<Rightarrow> (Inl e, s)
                | Inr m \<Rightarrow> nested_session w (print_value ''Error :'' m s))))"

definition run_system_cell ::
  "(http_request \<Rightarrow> reply) \<Rightarrow> string \<Rightarrow> string \<Rightarrow> session_vars \<Rightarrow>
   (pyerror + unit) \<times> session_vars" where
  "run_system_cell post root_url strategy_name s =
     (case post (run_system_request root_url strategy_name) of
        Raises \<Rightarrow> (Inl RequestFailed, s)
      | Replies b \<Rightarrow>
          (case direct_fields b s of
             (Inr u, s') \<Rightarrow> (Inr u, s')
           | (Inl e, s') \<Rightarrow> nested_fields b s'))"

section \<open>Uploading a strategy file\<close>

text \<open>
  The cell \<open># Upload strategy file\<close> of the backtest notebook:
  \<^verbatim>\<open>
  endpoint = 'upload/strategy/'
  url = root_url + endpoint
  params = {'tradeType':tradeType} # spot / future
  file_path = f"/content/drive/MyDrive/NeoMatrixAI/{strategy_name}.py"
  with open(file_path, "rb") as f:
      files = {"file": f}
      response = requests.post(url, params=params, files=files)
  \<close>
  The drive maps a path to the file stored there. The cell never looks into the file,
  so its content is a type parameter. The result is the request that was posted, or the
  error raised before posting.
\<close>

record 'a upload_request =
  up_url :: string
  up_params :: "(string \<times> string) list"
  up_file :: 'a

definition upload_strategy_cell ::
  "string \<Rightarrow> string \<Rightarrow> string \<Rightarrow> (string \<rightharpoonup> 'a) \<Rightarrow> pyerror + 'a upload_request" where
  "upload_strategy_cell root_url tradeType strategy_name drive =
     (let url = root_url @ ''upload/strategy/'';
          params = [(''tradeType'', tradeType)];
          file_path = ''/content/drive/MyDrive/NeoMatrixAI/'' @ strategy_name @ ''.py''
      in case drive file_path of
           None \<Rightarrow> Inl FileNotFoundError
         | Some f \<Rightarrow> Inr \<lparr>up_url = url, up_params = params, up_file = f\<rparr>)"

section \<open>Running a backtest\<close>

text \<open>
  The cells \<open># config\<close> and \<open># Run backtest\<close> of the backtest notebook. The globals the
  config cell sets are the fields of \<open>backtest_globals\<close>; \<open>path\<close> is the report
  directory chosen by the caller.
\<close>

record backtest_globals =
  DATA_KEY :: "string option"
  root_url :: string
  strategy_name :: string
  strategy_config_params :: pyval
  start_date_str :: pyval
  end_date_str :: pyval
  lookback_min :: pyval
  initial_capital :: pyval
  leverage :: pyval
  symbols :: pyval
  calendar :: pyval
  frequency :: pyval
  weight_method :: pyval
  custom_weights :: pyval
  generate_report_flag :: pyval
  path :: string

text \<open>
  \<^verbatim>\<open>
  request_payload = {"data_apikey": DATA_KEY, "strategy": strategy_name + '.py',
      "strategy_config": strategy_config_params, "start_date": start_date_str,
      "end_date": end_date_str, "lookback_minutes": lookback_min,
      "capital": initial_capital, "leverage": leverage, "symbols": symbols,
      "calendar": calendar, "frequency": frequency, "weight_method": weight_method,
      "generate_pyfolio_report": generate_report_flag}
  if weight_method == "custom":
      if not custom_weights:
          raise ValueError("custom_weights is required if weight_method is 'custom'")
      request_payload["custom_weights"] = custom_weights
  \<close>
\<close>

definition base_payload :: "backtest_globals \<Rightarrow> (string \<times> pyval) list" where
  "base_payload g =
     [(''data_apikey'', env_val (DATA_KEY g)),
      (''strategy'', PStr (strategy_name g @ ''.py'')),
      (''strategy_config'', strategy_config_params g),
      (''start_date'', start_date_str g),
      (''end_date'', end_date_str g),
      (''lookback_minutes'', lookback_min g),
      (''capital'', initial_capital g),
      (''leverage'', leverage g),
      (''symbols'', symbols g),
      (''calendar'', calendar g),
      (''frequency'', frequency g),
      (''weight_method'', weight_method g),
      (''generate_pyfolio_report'', generate_report_flag g)]"

definition request_payload :: "backtest_globals \<Rightarrow> pyerror + pyval" where
  "request_payload g =
     (if weight_method g = PStr ''custom'' then
        (if \<not> truthy (custom_weights g) then Inl ValueError
         else Inr (PDict (setitem (base_payload g) ''custom_weights'' (custom_weights g))))
      else Inr (PDict (base_payload g)))"

text \<open>
  The file system, as far as the cell uses it. A path is an opaque name. \<open>present\<close>
  holds the paths that exist, \<open>files\<close> the text of the files written, and \<open>refused\<close>
  the paths the operating system will not create or open for writing (a missing parent
  directory, a name that is a directory, no permission): when it refuses is its
  business, not the notebook's. \<open>os.makedirs\<close> also creates the missing parent
  directories; they are not tracked.
\<close>

record filesystem =
  present :: "string set"
  files :: "string \<rightharpoonup> string"
  refused :: "string set"

definition exists_path :: "filesystem \<Rightarrow> string \<Rightarrow> bool" where
  "exists_path fs p = (p \<in> present fs)"

definition makedirs :: "filesystem \<Rightarrow> string \<Rightarrow> pyerror + filesystem" where
  "makedirs fs p =
     (if p \<in> present fs \<or> p \<in> refused fs then Inl OSError
      else Inr (fs\<lparr>present := insert p (present fs)\<rparr>))"

text \<open>\<open>open(p, "w")\<close> creates the file or empties it.\<close>

definition open_w :: "filesystem \<Rightarrow> string \<Rightarrow> pyerror + filesystem" where
  "open_w fs p =
     (if p \<in> refused fs then Inl OSError
      else Inr (fs\<lparr>present := insert p (present fs), files := (files fs)(p \<mapsto> [])\<rparr>))"

definition write_text :: "filesystem \<Rightarrow> string \<Rightarrow> string \<Rightarrow> filesystem" where
  "write_text fs p txt = fs\<lparr>files := (files fs)(p \<mapsto> txt)\<rparr>"

text \<open>\<open>os.path.join(a, b)\<close> on POSIX paths.\<close>

definition join :: "string \<Rightarrow> string \<Rightarrow> string" where
  "join a b =
     (if b \<noteq> [] \<and> hd b = CHR ''/'' then b
      else if a = [] \<or> last a = CHR ''/'' then a @ b
      else a @ ''/'' @ b)"

text \<open>\<open>datetime.now().strftime('%Y-%m-%d %H:%M')\<close>: the clock is the environment's.\<close>

record datetime =
  year :: nat
  month :: nat
  day :: nat
  hour :: nat
  minute :: nat

definition digit :: "nat \<Rightarrow> char" where
  "digit n = char_of (48 + n mod 10)"

definition pad2 :: "nat \<Rightarrow> string" where
  "pad2 n = [digit (n div 10), digit n]"

definition pad4 :: "nat \<Rightarrow> string" where
  "pad4 n = [digit (n div 1000), digit (n div 100), digit (n div 10), digit n]"

definition strftime :: "datetime \<Rightarrow> string" where
  "strftime t =
     pad4 (year t) @ ''-'' @ pad2 (month t) @ ''-'' @ pad2 (day t) @ '' ''
       @ pad2 (hour t) @ '':'' @ pad2 (minute t)"

definition report_name :: "datetime \<Rightarrow> string \<Rightarrow> string" where
  "report_name now name = strftime now @ ''_'' @ name @ ''_backtest_report.html''"

definition report_filename :: "backtest_globals \<Rightarrow> datetime \<Rightarrow> string" where
  "report_filename g now = join (path g) (report_name now (strategy_name g))"

text \<open>
  The answer to the request: \<open>requests.post\<close> raises (timeout or another request
  error), or a response arrives with a status code and a body.
  \<open>raise_for_status\<close> raises for the codes 400 to 599.
\<close>

datatype http_outcome = Timeout | RequestError | Response nat body

text \<open>
  The branch \<open>if html_content:\<close> of the cell:
  \<^verbatim>\<open>
  if not os.path.exists(path):
      os.makedirs(path)
  report_filename = os.path.join(path, f"{datetime.now().strftime('%Y-%m-%d %H:%M')}_{strategy_name}_backtest_report.html")
  try:
      with open(report_filename, "w", encoding="utf-8") as f:
          f.write(html_content)
  except Exception as e:
      print(f"ERROR: Failed to save received HTML report: {e}") ...
  \<close>
  Every exception raised after the request is caught by one of the handlers of the
  cell, which only print; console output is not modelled, so a failure shows as the
  file system it leaves. \<open>f.write\<close> of a value that is not a string raises after
  \<open>open\<close> has created the file.
\<close>

definition save_report :: "backtest_globals \<Rightarrow> datetime \<Rightarrow> pyval \<Rightarrow> filesystem \<Rightarrow> filesystem" where
  "save_report g now html_content fs =
     (case (if \<not> exists_path fs (path g) then makedirs fs (path g) else Inr fs) of
        Inl e \<Rightarrow> fs
      | Inr fs1 \<Rightarrow>
          (case open_w fs1 (report_filename g now) of
             Inl e \<Rightarrow> fs1
           | Inr fs2 \<Rightarrow>
               (case html_content of
                  PStr txt \<Rightarrow> write_text fs2 (report_filename g now) txt
                | _ \<Rightarrow> fs2)))"

text \<open>
  \<^verbatim>\<open>
  result_data = response.json()
  report_type = result_data.get('report_type')
  if report_type == 'html':
      html_content = result_data.get('html_content')
      if html_content: ... (save the report)
      else: print("WARN: ...")
  elif report_type == 'logs_only': ... (print)
  else: ... (print)
  \<close>
\<close>

definition handle_result :: "backtest_globals \<Rightarrow> datetime \<Rightarrow> pyval \<Rightarrow> filesystem \<Rightarrow> filesystem" where
  "handle_result g now result_data fs =
     (case dict_get result_data ''report_type'' of
        Inl e \<Rightarrow> fs
      | Inr report_type \<Rightarrow>
          if report_type = PStr ''html'' then
            (case dict_get result_data ''html_content'' of
               Inl e \<Rightarrow> fs
             | Inr html_content \<Rightarrow>
                 if truthy html_content then save_report g now html_content fs else fs)
          else fs)"

record backtest_run =
  sent :: "http_request list"
  disk :: filesystem

definition backtest_request :: "backtest_globals \<Rightarrow> pyval \<Rightarrow> http_request" where
  "backtest_request g p = \<lparr>url = root_url g @ ''run/future/backtest/'', payload = p\<rparr>"

definition run_backtest_cell ::
  "backtest_globals \<Rightarrow> (http_request \<Rightarrow> http_outcome) \<Rightarrow> datetime \<Rightarrow> filesystem \<Rightarrow>
   pyerror + backtest_run" where
  "run_backtest_cell g post now fs =
     (case request_payload g of
        Inl e \<Rightarrow> Inl e
      | Inr p \<Rightarrow>
          (let req = backtest_request g p
           in Inr \<lparr>sent = [req],
                   disk = (case post req of
                             Response status (Json result_data) \<Rightarrow>
                               if 400 \<le> status \<and> status < 600 then fs
                               else handle_result g now result_data fs
                           | _ \<Rightarrow> fs)\<rparr>))"

section \<open>The example strategy of the strategy guide\<close>

text \<open>
  \<^verbatim>\<open>
  def strategy(df, config_dict):
      strategy_specific_config = config_dict.get('strategy_config')
      period = strategy_specific_config.get("minutes")[0]  # Use the first period only
      maximum_candidates = strategy_specific_config.get("maximum_candidates")
      returns = df.iloc[-1] / df.iloc[-period] - 1  # Calculate simple returns
      sorted_returns = returns.sort_values(ascending=False)
      long_candidates = list(sorted_returns.head(maximum_candidates).index)
      short_candidates = list(sorted_returns.tail(maximum_candidates).index)
      return long_candidates, short_candidates
  \<close>
  \<open>df\<close> is a frame of prices, one column per symbol.
\<close>

text \<open>\<open>x[0]\<close>: the first item of a list or string; a dictionary has no key \<open>0\<close> here.\<close>

fun first_item :: "pyval \<Rightarrow> pyerror + pyval" where
  "first_item (PList xs) = (case xs of [] \<Rightarrow> Inl IndexError | x # _ \<Rightarrow> Inr x)"
| "first_item (PStr s) = (case s of [] \<Rightarrow> Inl IndexError | c # _ \<Rightarrow> Inr (PStr [c]))"
| "first_item (PDict kvs) = Inl KeyError"
| "first_item _ = Inl TypeError"

text \<open>
  \<open>-period\<close> as a position for \<open>iloc\<close>: an integer (a boolean counts as 0 or 1);
  anything else is refused by the negation or by \<open>iloc\<close>.
\<close>

fun negated_position :: "pyval \<Rightarrow> pyerror + int" where
  "negated_position (PInt p) = Inr (- p)"
| "negated_position (PBool b) = Inr (if b then - 1 else 0)"
| "negated_position _ = Inl TypeError"

text \<open>
  The count given to \<open>head\<close> and \<open>tail\<close>: an integer. \<open>None\<close> passes \<open>head\<close> but is
  refused by \<open>tail\<close>, so the function raises for it as for any other value.
\<close>

fun slice_count :: "pyval \<Rightarrow> pyerror + int" where
  "slice_count (PInt k) = Inr k"
| "slice_count _ = Inl TypeError"

text \<open>
  \<open>a / b - 1\<close>, cell by cell, on two rows of the same frame. The code computes in
  float64, where rounding can make two different quotients equal; here the values
  are exact. What is proved about the strategy below rests on the labels and on the
  number of candidates, not on the values.
\<close>

definition returns :: "rat list \<Rightarrow> rat list \<Rightarrow> rat list" where
  "returns last_row past_row = map2 (\<lambda>a b. a / b - 1) last_row past_row"

text \<open>
  \<open>sort_values(ascending=False)\<close> belongs to pandas, not to the repository, and is a
  parameter of the model. Its contract: the result holds the same (label, value)
  pairs, values in descending order. The order of equal values is left to the
  sorting algorithm.
\<close>

definition descending :: "(string \<times> rat) list \<Rightarrow> bool" where
  "descending s = sorted_wrt (\<lambda>a b. snd b \<le> snd a) s"

definition sorts_descending :: "((string \<times> rat) list \<Rightarrow> (string \<times> rat) list) \<Rightarrow> bool" where
  "sorts_descending sort_values = (\<forall>s. mset (sort_values s) = mset s \<and> descending (sort_values s))"

definition strategy ::
  "((string \<times> rat) list \<Rightarrow> (string \<times> rat) list) \<Rightarrow> rat dataframe \<Rightarrow> pyval \<Rightarrow>
   pyerror + string list \<times> string list" where
  "strategy sort_values df config_dict =
     (case dict_get config_dict ''strategy_config'' of
        Inl e \<Rightarrow> Inl e
      | Inr strategy_specific_config \<Rightarrow>
     (case dict_get strategy_specific_config ''minutes'' of
        Inl e \<Rightarrow> Inl e
      | Inr minutes \<Rightarrow>
     (case first_item minutes of
        Inl e \<Rightarrow> Inl e
      | Inr period \<Rightarrow>
     (case dict_get strategy_specific_config ''maximum_candidates'' of
        Inl e \<Rightarrow> Inl e
      | Inr maximum_candidates \<Rightarrow>
     (case iloc df (- 1) of
        Inl e \<Rightarrow> Inl e
      | Inr last_row \<Rightarrow>
     (case negated_position period of
        Inl e \<Rightarrow> Inl e
      | Inr i \<Rightarrow>
     (case iloc df i of
        Inl e \<Rightarrow> Inl e
      | Inr past_row \<Rightarrow>
     (let sorted_returns = sort_values (zip (columns df) (returns last_row past_row))
      in (case slice_count maximum_candidates of
            Inl e \<Rightarrow> Inl e
          | Inr k \<Rightarrow>
              Inr (map fst (head k sorted_returns), map fst (tail k sorted_returns)))))))))))"

text \<open>
  A well-formed frame has distinct column labels and one cell per column in every
  row.
\<close>

definition frame_ok :: "'a dataframe \<Rightarrow> bool" where
  "frame_ok df =
     (distinct (columns df) \<and> list_all (\<lambda>r. length r = length (columns df)) (rows df))"

text \<open>An insertion sort that meets the contract of \<open>sort_values(ascending=False)\<close>.\<close>

fun insert_desc :: "string \<times> rat \<Rightarrow> (string \<times> rat) list \<Rightarrow> (string \<times> rat) list" where
  "insert_desc x [] = [x]"
| "insert_desc x (y # ys) = (if snd y \<le> snd x then x # y # ys else y # insert_desc x ys)"

definition sort_desc :: "(string \<times> rat) list \<Rightarrow> (string \<times> rat) list" where
  "sort_desc s = foldr insert_desc s []"

text \<open>The configuration dictionary the guide passes to the strategy.\<close>

definition config_dict_of :: "pyval \<Rightarrow> pyval \<Rightarrow> pyval" where
  "config_dict_of maximum_candidates minutes =
     PDict [(''strategy_config'',
             PDict [(''maximum_candidates'', maximum_candidates), (''minutes'', minutes)])]"

section \<open>The acceptance conditions of the specification\<close>

text \<open>
  The specification states conditions under which a submission is to be rejected
  before anything is sent. They are written here in the specification's words, to be
  compared with what the cells above send.
\<close>

definition number :: "pyval \<Rightarrow> rat option" where
  "number v = (case v of PInt i \<Rightarrow> Some (of_int i) | PFloat r \<Rightarrow> Some r | _ \<Rightarrow> None)"

definition members :: "pyval \<Rightarrow> pyval list" where
  "members v = (case v of PList xs \<Rightarrow> xs | _ \<Rightarrow> [])"

text \<open>
  Custom weights: present, every key a symbol of the universe, every value a
  non-negative number, the values summing to 1 within \<open>1e-6\<close>.
\<close>

definition spec_custom_weights_ok :: "pyval \<Rightarrow> pyval \<Rightarrow> bool" where
  "spec_custom_weights_ok universe cw =
     (case cw of
        PDict kvs \<Rightarrow>
          list_all (\<lambda>(k, v). PStr k \<in> set (members universe)) kvs \<and>
          list_all (\<lambda>(k, v). case number v of None \<Rightarrow> False | Some x \<Rightarrow> 0 \<le> x) kvs \<and>
          \<bar>sum_list (map (\<lambda>(k, v). case number v of None \<Rightarrow> 0 | Some x \<Rightarrow> x) kvs) - 1\<bar>
             \<le> 1 / 10 ^ 6
      | _ \<Rightarrow> False)"

text \<open>The rebalancing interval: one of 6, 12, 24 and 72 hours.\<close>

definition spec_interval_ok :: "pyval \<Rightarrow> bool" where
  "spec_interval_ok config_params =
     (case getitem config_params ''rebalancing_config'' of
        Inl e \<Rightarrow> False
      | Inr rc \<Rightarrow>
          (case getitem rc ''rebalancing_interval_hours'' of
             Inl e \<Rightarrow> False
           | Inr h \<Rightarrow> h \<in> {PInt 6, PInt 12, PInt 24, PInt 72}))"

text \<open>
  The strategy contract: the value returned is a pair of sequences, every element is
  a symbol of the universe, and the two sequences share no element.
\<close>

definition spec_contract_ok :: "string list \<Rightarrow> pyerror + string list \<times> string list \<Rightarrow> bool" where
  "spec_contract_ok universe result =
     (case result of
        Inl e \<Rightarrow> False
      | Inr (longs, shorts) \<Rightarrow>
          list_all (\<lambda>s. s \<in> set universe) (longs @ shorts) \<and>
          list_all (\<lambda>s. s \<notin> set shorts) longs)"

text \<open>A strategy file: its name and the function it defines.\<close>

record strategy_file =
  file_name :: string
  strategy_fn :: "rat dataframe \<Rightarrow> pyval \<Rightarrow> pyerror + string list \<times> string list"

section \<open>Sample inputs\<close>

text \<open>The values set by the config cell of the backtest notebook.\<close>

definition notebook_config :: "int \<Rightarrow> pyval" where
  "notebook_config interval_hours =
     PDict [(''rebalancing_config'',
             PDict [(''rebalancing_interval_hours'', PInt interval_hours),
                    (''minimum_candidates'', PInt 0)]),
            (''strategy_config'',
             PDict [(''long_maximum_candidates'', PInt 5),
                    (''short_maximum_candidates'', PInt 5),
                    (''minutes'', PList [PInt 60, PInt 180, PInt 360])])]"

definition notebook_weights :: pyval where
  "notebook_weights =
     PDict [(''BTCUSDT'', PFloat (5 / 10)), (''ETHUSDT'', PFloat (2 / 10)),
            (''XRPUSDT'', PFloat (1 / 10)), (''BCHUSDT'', PFloat (4 / 100)),
            (''LTCUSDT'', PFloat (4 / 100)), (''ADAUSDT'', PFloat (3 / 100)),
            (''ETCUSDT'', PFloat (3 / 100)), (''TRXUSDT'', PFloat (3 / 100)),
            (''DOTUSDT'', PFloat (2 / 100)), (''DOGEUSDT'', PFloat (1 / 100))]"

definition notebook_globals :: backtest_globals where
  "notebook_globals =
     \<lparr>DATA_KEY = Some ''data-key'',
      root_url = ''https://zipline.fin.cloud.ainode.ai/user-key/'',
      strategy_name = ''multi_period_momentum'',
      strategy_config_params = notebook_config 72,
      start_date_str = PStr ''2025-03-10'',
      end_date_str = PStr ''2025-03-20'',
      lookback_min = PInt 360,
      initial_capital = PInt 200000,
      leverage = PInt 10,
      symbols = PList [PStr ''BTCUSDT'', PStr ''ETHUSDT'', PStr ''XRPUSDT'', PStr ''BCHUSDT'',
                       PStr ''LTCUSDT'', PStr ''ADAUSDT'', PStr ''ETCUSDT'', PStr ''TRXUSDT'',
                       PStr ''DOTUSDT'', PStr ''DOGEUSDT''],
      calendar = PStr ''24/7'',
      frequency = PStr ''minute'',
      weight_method = PStr ''custom'',
      custom_weights = notebook_weights,
      generate_report_flag = PBool True,
      path = ''/content/drive/MyDrive/NeoMatrixAI/backtest_report''\<rparr>"

text \<open>The same cell with weights that sum to 0.97, and with an interval of 5 hours.\<close>

definition globals_weights_097 :: backtest_globals where
  "globals_weights_097 =
     notebook_globals\<lparr>custom_weights :=
       PDict [(''BTCUSDT'', PFloat (5 / 10)), (''ETHUSDT'', PFloat (47 / 100))]\<rparr>"

definition globals_interval_5 :: backtest_globals where
  "globals_interval_5 = notebook_globals\<lparr>strategy_config_params := notebook_config 5\<rparr>"

text \<open>A clock, an empty disk, and three answers of the backtest endpoint.\<close>

definition clock_0618 :: datetime where
  "clock_0618 = \<lparr>year = 2025, month = 6, day = 30, hour = 6, minute = 18\<rparr>"

definition blank_disk :: filesystem where
  "blank_disk = \<lparr>present = {}, files = Map.empty, refused = {}\<rparr>"

definition html_answer :: "http_request \<Rightarrow> http_outcome" where
  "html_answer q =
     Response 200 (Json (PDict [(''report_type'', PStr ''html''),
                                (''html_content'', PStr ''<html></html>''),
                                (''logs'', PStr ''done'')]))"

definition logs_answer :: "http_request \<Rightarrow> http_outcome" where
  "logs_answer q =
     Response 200 (Json (PDict [(''report_type'', PStr ''logs_only''),
                                (''logs'', PStr ''done'')]))"

definition no_answer :: "http_request \<Rightarrow> http_outcome" where
  "no_answer q = Timeout"

text \<open>
  Three symbols over two minutes, the guide's strategy as a file on the drive, and
  the guide's configuration with five candidates.
\<close>

definition three_symbols :: "rat dataframe" where
  "three_symbols =
     \<lparr>columns = [''BTCUSDT'', ''ETHUSDT'', ''XRPUSDT''],
      rows = [[100, 50, 2], [110, 50, 1]]\<rparr>"

definition guide_strategy_file :: strategy_file where
  "guide_strategy_file = \<lparr>file_name = ''strategy.py'', strategy_fn = strategy sort_desc\<rparr>"

definition guide_drive :: "string \<rightharpoonup> strategy_file" where
  "guide_drive = [''/content/drive/MyDrive/NeoMatrixAI/strategy.py'' \<mapsto> guide_strategy_file]"

text \<open>
  Two answers of the position endpoint: one position, and one record without any
  field.
\<close>

definition one_position_reply :: "http_request \<Rightarrow> positions_reply" where
  "one_position_reply q = Data [[(''symbol'', PStr ''BTCUSDT''), (''total'', PFloat (1 / 2))]]"

definition field_less_reply :: "http_request \<Rightarrow> positions_reply" where
  "field_less_reply q = Data [[]]"

definition no_position_reply :: "http_request \<Rightarrow> positions_reply" where
  "no_position_reply q = Data []"

section \<open>Verified properties\<close>

subsection \<open>Helper facts\<close>





lemma set_first_seen: "set (first_seen xs) = set xs"
  by (simp add: first_seen_def)

lemma df_empty_DataFrame: "df_empty (DataFrame data) \<longleftrightarrow> list_all (\<lambda>r. r = []) data"
proof -
  have "first_seen (concat (map (map fst) data)) = [] \<longleftrightarrow> set (concat (map (map fst) data)) = {}"
    by (metis set_first_seen set_empty)
  also have "\<dots> \<longleftrightarrow> (\<forall>r\<in>set data. r = [])"
    by auto
  finally show ?thesis
    by (cases data) (auto simp: df_empty_def DataFrame_def list_all_iff)
qed

lemma total_weight_equal: "syms \<noteq> [] \<Longrightarrow> total_weight (allocate_equal syms) = 1"
  by (simp add: total_weight_def allocate_equal_def comp_def sum_list_triv)

subsection \<open>Equal weights\<close>

text \<open>
  C8. For a universe with at least one symbol, the equal allocation keeps the syms
  in order, gives each of them the weight \<open>1 / |U|\<close>, and the weights sum to 1 within
  \<open>1e-9\<close> (in exact arithmetic they sum to 1).
\<close>

theorem equal_allocation_uniform:
  assumes "syms \<noteq> []"
  shows "map fst (allocate_equal syms) = syms
       \<and> list_all (\<lambda>(s, w). w = 1 / of_nat (length syms)) (allocate_equal syms)
       \<and> \<bar>total_weight (allocate_equal syms) - 1\<bar> \<le> 1 / 10 ^ 9"
proof -
  have "map fst (allocate_equal syms) = syms"
    by (simp add: allocate_equal_def comp_def)
  moreover have "list_all (\<lambda>(s, w). w = 1 / of_nat (length syms)) (allocate_equal syms)"
    by (simp add: allocate_equal_def list_all_iff)
  moreover have "\<bar>total_weight (allocate_equal syms) - 1\<bar> \<le> 1 / 10 ^ 9"
    using assms by (simp add: total_weight_equal)
  ultimately show ?thesis by simp
qed

theorem equal_allocation_uniform_witness:
  "[''BTCUSDT'', ''ETHUSDT'', ''XRPUSDT''] \<noteq> []
   \<and> allocate_equal [''BTCUSDT'', ''ETHUSDT'', ''XRPUSDT'']
       = [(''BTCUSDT'', 1 / 3), (''ETHUSDT'', 1 / 3), (''XRPUSDT'', 1 / 3)]
   \<and> \<bar>total_weight (allocate_equal [''BTCUSDT'', ''ETHUSDT'', ''XRPUSDT'']) - 1\<bar> \<le> 1 / 10 ^ 9"
proof -
  have ne: "[''BTCUSDT'', ''ETHUSDT'', ''XRPUSDT''] \<noteq> []" by simp
  have "allocate_equal [''BTCUSDT'', ''ETHUSDT'', ''XRPUSDT'']
       = [(''BTCUSDT'', 1 / 3), (''ETHUSDT'', 1 / 3), (''XRPUSDT'', 1 / 3)]"
    by (simp add: allocate_equal_def)
  with equal_allocation_uniform [OF ne] show ?thesis by simp
qed

subsection \<open>The position query\<close>



text \<open>
  C6, as the specification states it, does not hold: when the endpoint answers with
  a list of one record that has no field, the list is not empty, yet the frame built
  from it has no column, and the message is printed.
\<close>

theorem field_less_record_reported_liquidated:
  "field_less_reply (positions_request (Some ''key-1'') ''susdt-futures'' ''susdt'') = Data [[]]
   \<and> all_positions (Some ''key-1'') field_less_reply ''key-1'' ''susdt-futures'' ''susdt''
     = \<lparr>requests = [positions_request (Some ''key-1'') ''susdt-futures'' ''susdt''],
        stdout = [''Everything has been liquidated''],
        outcome = Inr \<lparr>built_from = [[]], labels = [], height = 1\<rparr>\<rparr>"
  by (simp add: all_positions_def field_less_reply_def DataFrame_def df_empty_def
        first_seen_def Let_def)

text \<open>
  C6, amended. When the endpoint answers with a list of position records,
  \<open>all_positions\<close> makes exactly one request (the position query: no retry, no other
  command) and returns the frame pandas builds from that list as received, one row
  per record and one column per key in order of first appearance; it prints
  \<open>Everything has been liquidated\<close> exactly when that frame is empty, which is when
  the list is empty or none of its records has a field.
\<close>

theorem all_positions_reports_frame:
  assumes "post (positions_request USER_KEY productType marginCoin) = Data data"
  shows "all_positions USER_KEY post user_key productType marginCoin
           = \<lparr>requests = [positions_request USER_KEY productType marginCoin],
              stdout = (if list_all (\<lambda>r. r = []) data
                        then [''Everything has been liquidated''] else []),
              outcome = Inr (DataFrame data)\<rparr>
       \<and> built_from (DataFrame data) = data
       \<and> labels (DataFrame data) = first_seen (concat (map (map fst) data))
       \<and> height (DataFrame data) = length data"
proof -
  have "all_positions USER_KEY post user_key productType marginCoin
           = \<lparr>requests = [positions_request USER_KEY productType marginCoin],
              stdout = (if list_all (\<lambda>r. r = []) data
                        then [''Everything has been liquidated''] else []),
              outcome = Inr (DataFrame data)\<rparr>"
    using assms by (simp add: all_positions_def Let_def df_empty_DataFrame)
  then show ?thesis by (simp add: DataFrame_def)
qed

theorem all_positions_reports_frame_witness:
  "all_positions (Some ''key-1'') one_position_reply ''key-1'' ''susdt-futures'' ''susdt''
     = \<lparr>requests = [positions_request (Some ''key-1'') ''susdt-futures'' ''susdt''],
        stdout = [],
        outcome = Inr \<lparr>built_from = [[(''symbol'', PStr ''BTCUSDT''),
                                         (''total'', PFloat (1 / 2))]],
                        labels = [''symbol'', ''total''], height = 1\<rparr>\<rparr>
   \<and> all_positions (Some ''key-1'') no_position_reply ''key-1'' ''susdt-futures'' ''susdt''
     = \<lparr>requests = [positions_request (Some ''key-1'') ''susdt-futures'' ''susdt''],
        stdout = [''Everything has been liquidated''],
        outcome = Inr \<lparr>built_from = [], labels = [], height = 0\<rparr>\<rparr>"
proof -
  have a: "one_position_reply (positions_request (Some ''key-1'') ''susdt-futures'' ''susdt'')
     = Data [[(''symbol'', PStr ''BTCUSDT''), (''total'', PFloat (1 / 2))]]"
    by (simp add: one_position_reply_def)
  have b: "no_position_reply (positions_request (Some ''key-1'') ''susdt-futures'' ''susdt'')
     = Data []"
    by (simp add: no_position_reply_def)
  from all_positions_reports_frame [where post = one_position_reply, OF a, of "''key-1''"]
       all_positions_reports_frame [where post = no_position_reply, OF b, of "''key-1''"]
  show ?thesis
    by (simp add: DataFrame_def first_seen_def)
qed

subsection \<open>Starting a session\<close>

text \<open>
  C3. When the run-system endpoint answers with a JSON document, both shapes of the
  answer lead to the same record of the session: with \<open>session_id\<close> and
  \<open>dashboard_url\<close> at the top level, the cell stores the session identifier in
  \<open>session_id\<close> and prints it and the dashboard reference; with no \<open>session_id\<close> at
  the top level and the fields under the \<open>message\<close> wrapper (next to the wrapper's
  own \<open>message\<close> text), it prints that text and then stores and prints the nested
  session identifier and dashboard reference.
\<close>

theorem run_system_handles_both_shapes:
  assumes "post (run_system_request base sname) = Replies (Json r)"
  shows "(getitem r ''session_id'' = Inr sid \<and> getitem r ''dashboard_url'' = Inr d \<longrightarrow>
            run_system_cell post base sname s
              = (Inr (), \<lparr>session_id = Some sid,
                          printed = printed s @ [(''session id :'', sid), (''dashboard :'', d)]\<rparr>))
       \<and> (getitem r ''session_id'' = Inl e \<and> getitem r ''message'' = Inr w
            \<and> getitem w ''message'' = Inr m
            \<and> getitem w ''session_id'' = Inr sid \<and> getitem w ''dashboard_url'' = Inr d \<longrightarrow>
            run_system_cell post base sname s
              = (Inr (), \<lparr>session_id = Some sid,
                          printed = printed s @ [(''Error :'', m), (''session id :'', sid),
                                                 (''dashboard :'', d)]\<rparr>))"
  using assms
  by (simp add: run_system_cell_def direct_fields_def nested_fields_def nested_session_def
        json_def print_value_def)

theorem run_system_handles_both_shapes_witness:
  "run_system_cell
     (\<lambda>q. Replies (Json (PDict [(''session_id'', PStr ''s-42''),
                                 (''dashboard_url'', PStr ''https://dash/s-42'')])))
     ''https://host/key/'' ''multi_period_momentum'' \<lparr>session_id = None, printed = []\<rparr>
     = (Inr (), \<lparr>session_id = Some (PStr ''s-42''),
                 printed = [(''session id :'', PStr ''s-42''),
                            (''dashboard :'', PStr ''https://dash/s-42'')]\<rparr>)
   \<and> run_system_cell
     (\<lambda>q. Replies (Json (PDict [(''message'',
              PDict [(''message'', PStr ''already running''),
                     (''session_id'', PStr ''s-42''),
                     (''dashboard_url'', PStr ''https://dash/s-42'')])])))
     ''https://host/key/'' ''multi_period_momentum'' \<lparr>session_id = None, printed = []\<rparr>
     = (Inr (), \<lparr>session_id = Some (PStr ''s-42''),
                 printed = [(''Error :'', PStr ''already running''),
                            (''session id :'', PStr ''s-42''),
                            (''dashboard :'', PStr ''https://dash/s-42'')]\<rparr>)"
  using run_system_handles_both_shapes
          [of "\<lambda>q. Replies (Json (PDict [(''session_id'', PStr ''s-42''),
                                 (''dashboard_url'', PStr ''https://dash/s-42'')]))"
              "''https://host/key/''" "''multi_period_momentum''" _
              "PStr ''s-42''" "PStr ''https://dash/s-42''"
              "\<lparr>session_id = None, printed = []\<rparr>", OF refl]
        run_system_handles_both_shapes
          [of "\<lambda>q. Replies (Json (PDict [(''message'',
              PDict [(''message'', PStr ''already running''),
                     (''session_id'', PStr ''s-42''),
                     (''dashboard_url'', PStr ''https://dash/s-42'')])]))"
              "''https://host/key/''" "''multi_period_momentum''" _
              "PStr ''s-42''" "PStr ''https://dash/s-42''"
              "\<lparr>session_id = None, printed = []\<rparr>" KeyError
              "PDict [(''message'', PStr ''already running''),
                     (''session_id'', PStr ''s-42''),
                     (''dashboard_url'', PStr ''https://dash/s-42'')]"
              "PStr ''already running''", OF refl]
  by simp

subsection \<open>The backtest report\<close>

lemma digit_not_slash: "digit n \<noteq> CHR ''/''"
proof
  assume "digit n = CHR ''/''"
  then have "(of_char (digit n) :: nat) = of_char (CHR ''/'')" by simp
  moreover have "(48 + n mod 10) mod 256 = 48 + n mod 10"
    by (intro mod_less) (simp add: less_Suc_eq_le [symmetric] add.commute trans_less_add2)
  ultimately show False by (simp add: digit_def)
qed

lemma report_name_starts_with_digit:
  "report_name now name = digit (year now div 1000) # tl (report_name now name)"
  by (simp add: report_name_def strftime_def pad4_def)

lemma join_report_name:
  "join dir (report_name now name)
     = (if dir = [] \<or> last dir = CHR ''/'' then dir @ report_name now name
        else dir @ ''/'' @ report_name now name)"
proof -
  have "hd (report_name now name) \<noteq> CHR ''/''"
    by (subst report_name_starts_with_digit) (simp add: digit_not_slash)
  then show ?thesis by (simp add: join_def)
qed

text \<open>
  C7. For a response that \<open>raise_for_status\<close> lets pass and whose body decodes: with
  \<open>report_type\<close> \<open>html\<close> and a non-empty \<open>html_content\<close>, and an operating system that
  does not refuse to create the directory or to open the report file, the cell writes
  exactly one file, holding the content, in the directory \<open>path\<close> (created when it did
  not exist), named with the timestamp and the strategy name; with \<open>report_type\<close>
  \<open>logs_only\<close>, or with \<open>html_content\<close> absent, the file system is left as it was.
\<close>

theorem backtest_report_written:
  assumes "request_payload g = Inr p"
    and "post (backtest_request g p) = Response status (Json result_data)"
    and "\<not> (400 \<le> status \<and> status < 600)"
  shows "(dict_get result_data ''report_type'' = Inr (PStr ''html'')
          \<and> dict_get result_data ''html_content'' = Inr (PStr html) \<and> html \<noteq> []
          \<and> (path g \<in> present fs \<or> path g \<notin> refused fs)
          \<and> report_filename g now \<notin> refused fs \<longrightarrow>
            run_backtest_cell g post now fs
              = Inr \<lparr>sent = [backtest_request g p],
                     disk = fs\<lparr>present := insert (report_filename g now)
                                             (insert (path g) (present fs)),
                               files := (files fs)(report_filename g now \<mapsto> html)\<rparr>\<rparr>
            \<and> report_filename g now
              = path g @ (if path g = [] \<or> last (path g) = CHR ''/'' then [] else ''/'')
                  @ strftime now @ ''_'' @ strategy_name g @ ''_backtest_report.html'')
       \<and> (dict_get result_data ''report_type'' = Inr (PStr ''logs_only'')
          \<or> dict_get result_data ''html_content'' = Inr PNone \<longrightarrow>
            run_backtest_cell g post now fs
              = Inr \<lparr>sent = [backtest_request g p], disk = fs\<rparr>)"
proof -
  have ok: "(400 \<le> status \<and> status < 600) = False"
    using assms(3) by simp
  have name: "report_filename g now
     = path g @ (if path g = [] \<or> last (path g) = CHR ''/'' then [] else ''/'')
         @ strftime now @ ''_'' @ strategy_name g @ ''_backtest_report.html''"
    by (simp add: report_filename_def join_report_name) (simp add: report_name_def)
  have saved: "save_report g now (PStr html) fs
     = fs\<lparr>present := insert (report_filename g now) (insert (path g) (present fs)),
          files := (files fs)(report_filename g now \<mapsto> html)\<rparr>"
    if "path g \<in> present fs \<or> path g \<notin> refused fs" "report_filename g now \<notin> refused fs"
  proof (cases "path g \<in> present fs")
    case True
    then have "insert (path g) (present fs) = present fs" by auto
    with True that show ?thesis
      by (simp add: save_report_def exists_path_def open_w_def write_text_def)
  next
    case False
    with that show ?thesis
      by (simp add: save_report_def exists_path_def makedirs_def open_w_def write_text_def)
  qed
  have html: "run_backtest_cell g post now fs
              = Inr \<lparr>sent = [backtest_request g p],
                     disk = fs\<lparr>present := insert (report_filename g now)
                                             (insert (path g) (present fs)),
                               files := (files fs)(report_filename g now \<mapsto> html)\<rparr>\<rparr>"
    if "dict_get result_data ''report_type'' = Inr (PStr ''html'')"
       "dict_get result_data ''html_content'' = Inr (PStr html)" "html \<noteq> []"
       "path g \<in> present fs \<or> path g \<notin> refused fs" "report_filename g now \<notin> refused fs"
    using assms(1,2) that(1,2,3) saved [OF that(4,5)]
    by (simp add: run_backtest_cell_def handle_result_def Let_def ok)
  have quiet: "run_backtest_cell g post now fs = Inr \<lparr>sent = [backtest_request g p], disk = fs\<rparr>"
    if "dict_get result_data ''report_type'' = Inr (PStr ''logs_only'')
          \<or> dict_get result_data ''html_content'' = Inr PNone"
    using assms(1,2) that
    by (auto simp add: run_backtest_cell_def handle_result_def Let_def ok split: sum.split)
  from name html quiet show ?thesis by blast
qed

theorem backtest_report_written_witness:
  "report_filename notebook_globals clock_0618
     = ''/content/drive/MyDrive/NeoMatrixAI/backtest_report/2025-06-30 06:18_multi_period_momentum_backtest_report.html''
   \<and> map_sum id (\<lambda>r. files (disk r)) (run_backtest_cell notebook_globals html_answer clock_0618 blank_disk)
     = Inr [report_filename notebook_globals clock_0618 \<mapsto> ''<html></html>'']
   \<and> map_sum id (\<lambda>r. present (disk r)) (run_backtest_cell notebook_globals html_answer clock_0618 blank_disk)
     = Inr {report_filename notebook_globals clock_0618,
            ''/content/drive/MyDrive/NeoMatrixAI/backtest_report''}
   \<and> map_sum id disk (run_backtest_cell notebook_globals logs_answer clock_0618 blank_disk)
     = Inr blank_disk"
proof -
  have n: "report_filename notebook_globals clock_0618
     = ''/content/drive/MyDrive/NeoMatrixAI/backtest_report/2025-06-30 06:18_multi_period_momentum_backtest_report.html''"
    by code_simp
  have p: "request_payload notebook_globals
     = Inr (PDict (setitem (base_payload notebook_globals) ''custom_weights'' notebook_weights))"
    by (simp add: request_payload_def notebook_globals_def notebook_weights_def)
  have s: "\<not> (400 \<le> (200::nat) \<and> (200::nat) < 600)" by simp
  have d: "path notebook_globals = ''/content/drive/MyDrive/NeoMatrixAI/backtest_report''"
    by (simp add: notebook_globals_def)
  have h: "html_answer (backtest_request notebook_globals
              (PDict (setitem (base_payload notebook_globals) ''custom_weights'' notebook_weights)))
     = Response 200 (Json (PDict [(''report_type'', PStr ''html''),
                                (''html_content'', PStr ''<html></html>''),
                                (''logs'', PStr ''done'')]))"
    by (simp add: html_answer_def)
  have l: "logs_answer (backtest_request notebook_globals
              (PDict (setitem (base_payload notebook_globals) ''custom_weights'' notebook_weights)))
     = Response 200 (Json (PDict [(''report_type'', PStr ''logs_only''),
                                (''logs'', PStr ''done'')]))"
    by (simp add: logs_answer_def)
  from backtest_report_written
         [where post = html_answer and html = "''<html></html>''" and fs = blank_disk
            and now = clock_0618, OF p h s]
  have "run_backtest_cell notebook_globals html_answer clock_0618 blank_disk
     = Inr \<lparr>sent = [backtest_request notebook_globals
                       (PDict (setitem (base_payload notebook_globals) ''custom_weights''
                                 notebook_weights))],
            disk = blank_disk\<lparr>present := insert (report_filename notebook_globals clock_0618)
                                              (insert (path notebook_globals) (present blank_disk)),
                             files := (files blank_disk)
                               (report_filename notebook_globals clock_0618 \<mapsto> ''<html></html>'')\<rparr>\<rparr>"
    by (simp add: dict_get_def blank_disk_def)
  moreover
  from backtest_report_written
         [where post = logs_answer and fs = blank_disk and now = clock_0618, OF p l s]
  have "run_backtest_cell notebook_globals logs_answer clock_0618 blank_disk
     = Inr \<lparr>sent = [backtest_request notebook_globals
                       (PDict (setitem (base_payload notebook_globals) ''custom_weights''
                                 notebook_weights))],
            disk = blank_disk\<rparr>"
    by (simp add: dict_get_def)
  ultimately show ?thesis
    using n by (simp add: blank_disk_def d)
qed

subsection \<open>What the backtest cell checks before it sends\<close>

lemma map_of_setitem_same: "map_of (setitem kvs k v) k = Some v"
  by (induction kvs k v rule: setitem.induct) auto

lemma map_of_setitem_other: "k' \<noteq> k \<Longrightarrow> map_of (setitem kvs k v) k' = map_of kvs k'"
  by (induction kvs k v rule: setitem.induct) auto

lemma payload_strategy_config:
  "request_payload g = Inr p \<Longrightarrow> getitem p ''strategy_config'' = Inr (strategy_config_params g)"
  by (auto simp: request_payload_def map_of_setitem_other base_payload_def split: if_splits)

lemma payload_custom_weights:
  "weight_method g = PStr ''custom'' \<Longrightarrow> request_payload g = Inr p \<Longrightarrow>
   getitem p ''custom_weights'' = Inr (custom_weights g)"
  by (auto simp: request_payload_def map_of_setitem_same split: if_splits)

lemma run_backtest_cell_sent:
  "request_payload g = Inr p \<Longrightarrow>
   \<exists>r. run_backtest_cell g post now fs = Inr r \<and> sent r = [backtest_request g p]"
  by (simp add: run_backtest_cell_def Let_def)

text \<open>
  C1, as the specification states it, does not hold: with \<open>weight_method\<close> \<open>custom\<close>
  and the weights 0.5 and 0.47, which sum to 0.97, the cell sends the request.
\<close>

theorem custom_weights_097_sent:
  "weight_method globals_weights_097 = PStr ''custom''
   \<and> \<not> spec_custom_weights_ok (symbols globals_weights_097) (custom_weights globals_weights_097)
   \<and> run_backtest_cell globals_weights_097 no_answer clock_0618 blank_disk
     = Inr \<lparr>sent = [\<lparr>url = ''https://zipline.fin.cloud.ainode.ai/user-key/run/future/backtest/'',
                       payload = PDict (base_payload globals_weights_097 @
                         [(''custom_weights'',
                           PDict [(''BTCUSDT'', PFloat (5 / 10)),
                                  (''ETHUSDT'', PFloat (47 / 100))])])\<rparr>],
            disk = blank_disk\<rparr>"
proof -
  have "\<not> spec_custom_weights_ok (symbols globals_weights_097) (custom_weights globals_weights_097)"
    by (simp add: spec_custom_weights_ok_def globals_weights_097_def notebook_globals_def
          number_def members_def)
  moreover have "run_backtest_cell globals_weights_097 no_answer clock_0618 blank_disk
     = Inr \<lparr>sent = [\<lparr>url = ''https://zipline.fin.cloud.ainode.ai/user-key/run/future/backtest/'',
                       payload = PDict (base_payload globals_weights_097 @
                         [(''custom_weights'',
                           PDict [(''BTCUSDT'', PFloat (5 / 10)),
                                  (''ETHUSDT'', PFloat (47 / 100))])])\<rparr>],
            disk = blank_disk\<rparr>"
    by (simp add: run_backtest_cell_def request_payload_def backtest_request_def no_answer_def
          base_payload_def globals_weights_097_def notebook_globals_def Let_def)
  ultimately show ?thesis
    by (simp add: globals_weights_097_def notebook_globals_def)
qed

text \<open>
  C1, amended. With \<open>weight_method\<close> \<open>custom\<close>, the cell checks only that
  \<open>custom_weights\<close> is there and not empty: if so, exactly one request is sent, whatever
  the answer, and its payload carries \<open>custom_weights\<close> unchanged; if not,
  \<open>ValueError\<close> is raised and nothing is sent.
\<close>

theorem custom_weights_presence_only:
  assumes "weight_method g = PStr ''custom''"
  shows "(truthy (custom_weights g) \<longrightarrow>
            (\<exists>r p. run_backtest_cell g post now fs = Inr r \<and> sent r = [backtest_request g p]
                   \<and> getitem p ''custom_weights'' = Inr (custom_weights g)))
       \<and> (\<not> truthy (custom_weights g) \<longrightarrow> run_backtest_cell g post now fs = Inl ValueError)"
proof (cases "truthy (custom_weights g)")
  case True
  with assms obtain p where p: "request_payload g = Inr p"
    by (simp add: request_payload_def)
  from run_backtest_cell_sent [OF p] payload_custom_weights [OF assms p] True
  show ?thesis by blast
next
  case False
  with assms show ?thesis
    by (simp add: run_backtest_cell_def request_payload_def)
qed

theorem custom_weights_presence_only_witness:
  "weight_method notebook_globals = PStr ''custom''
   \<and> truthy (custom_weights notebook_globals)
   \<and> (\<exists>r p. run_backtest_cell notebook_globals no_answer clock_0618 blank_disk = Inr r
            \<and> sent r = [backtest_request notebook_globals p]
            \<and> getitem p ''custom_weights'' = Inr notebook_weights)
   \<and> \<not> truthy (custom_weights (notebook_globals\<lparr>custom_weights := PDict []\<rparr>))
   \<and> run_backtest_cell (notebook_globals\<lparr>custom_weights := PDict []\<rparr>) no_answer clock_0618
        blank_disk = Inl ValueError"
proof -
  have w: "weight_method notebook_globals = PStr ''custom''"
    and w': "weight_method (notebook_globals\<lparr>custom_weights := PDict []\<rparr>) = PStr ''custom''"
    by (simp_all add: notebook_globals_def)
  have t: "truthy (custom_weights notebook_globals)"
    and c: "custom_weights notebook_globals = notebook_weights"
    by (simp_all add: notebook_globals_def notebook_weights_def)
  from custom_weights_presence_only
         [OF w, where post = no_answer and now = clock_0618 and fs = blank_disk]
       custom_weights_presence_only
         [OF w', where post = no_answer and now = clock_0618 and fs = blank_disk] w t c
  show ?thesis by simp
qed

text \<open>
  C5, as the specification states it, does not hold: with
  \<open>rebalancing_interval_hours\<close> 5, which is none of 6, 12, 24 and 72, the cell sends
  the request, the value 5 in its payload.
\<close>

theorem interval_5_sent:
  "strategy_config_params globals_interval_5 = notebook_config 5
   \<and> \<not> spec_interval_ok (notebook_config 5)
   \<and> map_of (base_payload globals_interval_5) ''strategy_config'' = Some (notebook_config 5)
   \<and> run_backtest_cell globals_interval_5 no_answer clock_0618 blank_disk
     = Inr \<lparr>sent = [\<lparr>url = ''https://zipline.fin.cloud.ainode.ai/user-key/run/future/backtest/'',
                       payload = PDict (base_payload globals_interval_5 @
                         [(''custom_weights'', notebook_weights)])\<rparr>],
            disk = blank_disk\<rparr>"
proof -
  have "\<not> spec_interval_ok (notebook_config 5)"
    by (simp add: spec_interval_ok_def notebook_config_def)
  moreover have "run_backtest_cell globals_interval_5 no_answer clock_0618 blank_disk
     = Inr \<lparr>sent = [\<lparr>url = ''https://zipline.fin.cloud.ainode.ai/user-key/run/future/backtest/'',
                       payload = PDict (base_payload globals_interval_5 @
                         [(''custom_weights'', notebook_weights)])\<rparr>],
            disk = blank_disk\<rparr>"
    by (simp add: run_backtest_cell_def request_payload_def backtest_request_def no_answer_def
          base_payload_def globals_interval_5_def notebook_globals_def notebook_weights_def
          Let_def)
  ultimately show ?thesis
    by (simp add: base_payload_def globals_interval_5_def notebook_globals_def)
qed

text \<open>
  C5, amended. The cell applies no check to \<open>rebalancing_interval_hours\<close>: whether
  it raises before sending does not depend on \<open>strategy_config_params\<close>, and a
  request that is sent carries \<open>strategy_config_params\<close> unchanged as its
  \<open>strategy_config\<close>, with an interval inside the set 6, 12, 24, 72 or outside it.
\<close>

theorem interval_forwarded_unchecked:
  "(run_backtest_cell (g\<lparr>strategy_config_params := c\<rparr>) post now fs = Inl e
      \<longleftrightarrow> run_backtest_cell g post now fs = Inl e)
   \<and> (run_backtest_cell (g\<lparr>strategy_config_params := c\<rparr>) post now fs = Inr r \<longrightarrow>
        (\<exists>p. sent r = [backtest_request g p] \<and> getitem p ''strategy_config'' = Inr c))"
proof -
  let ?g = "g\<lparr>strategy_config_params := c\<rparr>"
  have raise: "request_payload ?g = Inl e \<longleftrightarrow> request_payload g = Inl e"
    by (simp add: request_payload_def)
  have cell: "run_backtest_cell h post now fs = Inl e \<longleftrightarrow> request_payload h = Inl e" for h
    by (simp add: run_backtest_cell_def Let_def split: sum.split)
  have "\<exists>p. sent r = [backtest_request g p] \<and> getitem p ''strategy_config'' = Inr c"
    if "run_backtest_cell ?g post now fs = Inr r"
  proof -
    from that obtain p where p: "request_payload ?g = Inr p"
      by (cases "request_payload ?g") (simp_all add: run_backtest_cell_def)
    from run_backtest_cell_sent [OF p, of post now fs] that
    have "sent r = [backtest_request ?g p]" by auto
    moreover have "backtest_request ?g p = backtest_request g p"
      by (simp add: backtest_request_def)
    moreover from payload_strategy_config [OF p]
    have "getitem p ''strategy_config'' = Inr c" by simp
    ultimately show ?thesis by auto
  qed
  with raise cell show ?thesis by blast
qed

theorem interval_forwarded_unchecked_witness:
  "(\<exists>r p. run_backtest_cell (notebook_globals\<lparr>strategy_config_params := notebook_config 3\<rparr>)
            no_answer clock_0618 blank_disk = Inr r
          \<and> sent r = [backtest_request notebook_globals p]
          \<and> getitem p ''strategy_config'' = Inr (notebook_config 3))
   \<and> (\<exists>r p. run_backtest_cell (notebook_globals\<lparr>strategy_config_params := notebook_config 24\<rparr>)
            no_answer clock_0618 blank_disk = Inr r
          \<and> sent r = [backtest_request notebook_globals p]
          \<and> getitem p ''strategy_config'' = Inr (notebook_config 24))"
proof -
  have "\<exists>r. run_backtest_cell (notebook_globals\<lparr>strategy_config_params := c\<rparr>)
            no_answer clock_0618 blank_disk = Inr r" for c
    by (simp add: run_backtest_cell_def request_payload_def notebook_globals_def
          notebook_weights_def Let_def)
  then show ?thesis
    using interval_forwarded_unchecked
            [where g = notebook_globals and c = "notebook_config 3" and post = no_answer
               and now = clock_0618 and fs = blank_disk]
          interval_forwarded_unchecked
            [where g = notebook_globals and c = "notebook_config 24" and post = no_answer
               and now = clock_0618 and fs = blank_disk]
    by blast
qed

subsection \<open>Uploading a strategy\<close>

text \<open>
  C4, as the specification states it, does not hold. The guide's own strategy, asked
  for five candidates over three symbols, returns every symbol in both lists; the
  upload cell posts the file all the same.
\<close>

theorem overlapping_strategy_uploaded:
  "strategy_fn guide_strategy_file three_symbols (config_dict_of (PInt 5) (PList [PInt 2]))
     = Inr ([''BTCUSDT'', ''ETHUSDT'', ''XRPUSDT''], [''BTCUSDT'', ''ETHUSDT'', ''XRPUSDT''])
   \<and> \<not> spec_contract_ok (columns three_symbols)
         (strategy_fn guide_strategy_file three_symbols
            (config_dict_of (PInt 5) (PList [PInt 2])))
   \<and> upload_strategy_cell ''https://zipline.fin.cloud.ainode.ai/user-key/'' ''future''
         ''strategy'' guide_drive
     = Inr \<lparr>up_url = ''https://zipline.fin.cloud.ainode.ai/user-key/upload/strategy/'',
            up_params = [(''tradeType'', ''future'')],
            up_file = guide_strategy_file\<rparr>"
proof -
  have r: "strategy sort_desc three_symbols (config_dict_of (PInt 5) (PList [PInt 2]))
     = Inr ([''BTCUSDT'', ''ETHUSDT'', ''XRPUSDT''], [''BTCUSDT'', ''ETHUSDT'', ''XRPUSDT''])"
    by code_simp
  have u: "upload_strategy_cell ''https://zipline.fin.cloud.ainode.ai/user-key/'' ''future''
         ''strategy'' guide_drive
     = Inr \<lparr>up_url = ''https://zipline.fin.cloud.ainode.ai/user-key/upload/strategy/'',
            up_params = [(''tradeType'', ''future'')],
            up_file = guide_strategy_file\<rparr>"
    by (simp add: upload_strategy_cell_def guide_drive_def)
  from r u show ?thesis
    by (simp add: guide_strategy_file_def spec_contract_ok_def three_symbols_def)
qed

text \<open>
  C4, amended. The upload cell validates nothing about the strategy: whatever file is
  stored under the strategy's name is posted unchanged to the upload endpoint, and
  the cell fails before posting only when there is no such file.
\<close>

theorem upload_posts_file_unchecked:
  "(drive (''/content/drive/MyDrive/NeoMatrixAI/'' @ name @ ''.py'') = Some f \<longrightarrow>
      upload_strategy_cell base tradeType name drive
        = Inr \<lparr>up_url = base @ ''upload/strategy/'',
               up_params = [(''tradeType'', tradeType)], up_file = f\<rparr>)
   \<and> (drive (''/content/drive/MyDrive/NeoMatrixAI/'' @ name @ ''.py'') = None \<longrightarrow>
      upload_strategy_cell base tradeType name drive = Inl FileNotFoundError)"
  by (simp add: upload_strategy_cell_def)

theorem upload_posts_file_unchecked_witness:
  "guide_drive ''/content/drive/MyDrive/NeoMatrixAI/strategy.py'' = Some guide_strategy_file
   \<and> upload_strategy_cell ''https://host/key/'' ''spot'' ''strategy'' guide_drive
     = Inr \<lparr>up_url = ''https://host/key/upload/strategy/'',
            up_params = [(''tradeType'', ''spot'')], up_file = guide_strategy_file\<rparr>
   \<and> guide_drive ''/content/drive/MyDrive/NeoMatrixAI/other.py'' = None
   \<and> upload_strategy_cell ''https://host/key/'' ''spot'' ''other'' guide_drive
     = Inl FileNotFoundError"
  using upload_posts_file_unchecked
          [where drive = guide_drive and name = "''strategy''" and f = guide_strategy_file
             and base = "''https://host/key/''" and tradeType = "''spot''"]
        upload_posts_file_unchecked
          [where drive = guide_drive and name = "''other''"
             and base = "''https://host/key/''" and tradeType = "''spot''"]
  by (simp add: guide_drive_def)

subsection \<open>The example strategy\<close>

lemma mset_insert_desc: "mset (insert_desc x ys) = add_mset x (mset ys)"
  by (induction ys) auto

lemma set_insert_desc: "set (insert_desc x ys) = insert x (set ys)"
  by (induction ys) auto

lemma descending_insert_desc: "descending ys \<Longrightarrow> descending (insert_desc x ys)"
  by (induction ys) (auto simp: descending_def set_insert_desc)

lemma sorts_descending_sort_desc: "sorts_descending sort_desc"
proof -
  have "mset (sort_desc s) = mset s \<and> descending (sort_desc s)" for s
  proof (induction s)
    case Nil
    show ?case by (simp add: sort_desc_def descending_def)
  next
    case (Cons a s)
    then show ?case
      using descending_insert_desc [of "sort_desc s" a]
      by (simp add: sort_desc_def mset_insert_desc)
  qed
  then show ?thesis by (simp add: sorts_descending_def)
qed

lemma iloc_last: "rows df \<noteq> [] \<Longrightarrow> iloc df (- 1) = Inr (last (rows df))"
  by (cases "rows df" rule: rev_cases) (simp_all add: iloc_def position_def)

lemma iloc_back:
  assumes "1 \<le> p" "p \<le> int (length (rows df))"
  shows "iloc df (- p) = Inr (rows df ! (length (rows df) - nat p))"
proof -
  have "nat (int (length (rows df)) - p) = length (rows df) - nat p"
    using assms by linarith
  with assms show ?thesis by (simp add: iloc_def position_def)
qed

lemma strategy_result:
  assumes "dict_get config_dict ''strategy_config'' = Inr sc"
    and "dict_get sc ''minutes'' = Inr (PList (PInt p # rest))"
    and "dict_get sc ''maximum_candidates'' = Inr (PInt k)"
    and "1 \<le> p" "p \<le> int (length (rows df))"
  shows "strategy srt df config_dict =
     Inr (map fst (head k (srt (zip (columns df)
            (returns (last (rows df)) (rows df ! (length (rows df) - nat p)))))),
          map fst (tail k (srt (zip (columns df)
            (returns (last (rows df)) (rows df ! (length (rows df) - nat p)))))))"
proof -
  from assms(4,5) have "rows df \<noteq> []" by auto
  then have "iloc df (- 1) = Inr (last (rows df))" by (rule iloc_last)
  moreover from assms(4,5)
  have "iloc df (- p) = Inr (rows df ! (length (rows df) - nat p))" by (rule iloc_back)
  ultimately show ?thesis
    using assms(1,2,3) by (simp add: strategy_def Let_def)
qed

lemma head_nonneg: "0 \<le> k \<Longrightarrow> head k xs = take (nat k) xs"
  by (simp add: head_def)

lemma tail_nonneg: "0 \<le> k \<Longrightarrow> tail k xs = drop (length xs - nat k) xs"
  by (simp add: tail_def)

lemma keys_of_returns:
  assumes "frame_ok df" "r1 \<in> set (rows df)" "r2 \<in> set (rows df)"
  shows "map fst (zip (columns df) (returns r1 r2)) = columns df"
proof -
  from assms have "length r1 = length (columns df)" "length r2 = length (columns df)"
    by (auto simp: frame_ok_def list_all_iff)
  then have "length (returns r1 r2) = length (columns df)"
    by (simp add: returns_def)
  then show ?thesis by simp
qed

lemma sorted_keys:
  assumes "mset s = mset z" "map fst z = cols" "distinct cols"
  shows "distinct (map fst s)" "length s = length cols" "mset (map fst s) = mset cols"
proof -
  from assms(1) have m: "mset (map fst s) = mset (map fst z)"
    by (metis mset_map)
  with assms(2) show "mset (map fst s) = mset cols" by simp
  with assms(3) show "distinct (map fst s)"
    by (metis mset_eq_imp_distinct_iff)
  from assms(1) have "length s = length z" by (rule mset_eq_length)
  with assms(2) show "length s = length cols" by (metis length_map)
qed

lemma overlap_iff:
  assumes "distinct xs" "m \<le> length xs"
  shows "set (take m xs) \<inter> set (drop (length xs - m) xs) = {} \<longleftrightarrow> 2 * m \<le> length xs"
proof
  assume "2 * m \<le> length xs"
  then have "m \<le> length xs - m" by simp
  with assms(1) show "set (take m xs) \<inter> set (drop (length xs - m) xs) = {}"
    by (rule set_take_disj_set_drop_if_distinct)
next
  assume d: "set (take m xs) \<inter> set (drop (length xs - m) xs) = {}"
  show "2 * m \<le> length xs"
  proof (rule ccontr)
    assume "\<not> 2 * m \<le> length xs"
    with assms(2) have i: "length xs - m < m" "length xs - m < length xs" by auto
    then have "xs ! (length xs - m) \<in> set (take m xs)"
      by (metis in_set_conv_nth length_take min_less_iff_conj nth_take)
    moreover from i have "xs ! (length xs - m) \<in> set (drop (length xs - m) xs)"
      by (metis Cons_nth_drop_Suc list.set_intros(1))
    ultimately show False using d by auto
  qed
qed

text \<open>
  C2. The claim has the strategy rank the symbols for every configuration that
  provides \<open>minutes\<close> and a number of candidates. The guide's own \<open>config.py\<close> sets
  \<open>maximum_candidates\<close> to 5 and \<open>minutes\<close> to the number \<open>60 * hours\<close>, with
  \<open>hours = 12\<close>, and the guide calls the strategy with it; the strategy reads
  \<open>minutes[0]\<close> and raises \<open>TypeError\<close>, whatever the frame, before any ranking.
\<close>

theorem strategy_raises_on_guide_config:
  "strategy sort_values df
     (PDict [(''strategy_config'',
              PDict [(''maximum_candidates'', PInt 5), (''minutes'', PInt (60 * 12))])])
     = Inl TypeError"
  by (simp add: strategy_def dict_get_def)

text \<open>
  C9. Let \<open>minutes\<close> be a list whose first item is the integer \<open>period\<close>, at least 1
  and at most the number of rows of the frame. With \<open>n\<close> distinct symbol columns and
  \<open>maximum_candidates\<close> an integer \<open>k \<ge> 0\<close>, the strategy returns
  a long list and a short list of \<open>min k n\<close> symbols each; the two lists share no
  symbol exactly when \<open>2 * min k n \<le> n\<close>, and when the universe is not empty and
  smaller than \<open>2 * k\<close>, some symbol is in both lists.
\<close>

theorem strategy_candidate_counts:
  assumes "sorts_descending sort_values"
    and "frame_ok df"
    and "dict_get config_dict ''strategy_config'' = Inr sc"
    and "dict_get sc ''minutes'' = Inr (PList (PInt period # rest))"
    and "dict_get sc ''maximum_candidates'' = Inr (PInt k)"
    and "1 \<le> period" "period \<le> int (length (rows df))" "0 \<le> k"
  shows "\<exists>longs shorts.
           strategy sort_values df config_dict = Inr (longs, shorts)
         \<and> length longs = min (nat k) (length (columns df))
         \<and> length shorts = min (nat k) (length (columns df))
         \<and> (set longs \<inter> set shorts = {}
              \<longleftrightarrow> 2 * min (nat k) (length (columns df)) \<le> length (columns df))
         \<and> (0 < length (columns df) \<and> length (columns df) < 2 * nat k
              \<longrightarrow> set longs \<inter> set shorts \<noteq> {})"
proof -
  let ?z = "zip (columns df)
             (returns (last (rows df)) (rows df ! (length (rows df) - nat period)))"
  let ?L = "map fst (sort_values ?z)"
  let ?n = "length (columns df)"
  let ?m = "min (nat k) ?n"
  from assms(6,7) have "rows df \<noteq> []" by auto
  then have l: "last (rows df) \<in> set (rows df)" by simp
  from assms(6,7) have "length (rows df) - nat period < length (rows df)" by linarith
  then have b: "rows df ! (length (rows df) - nat period) \<in> set (rows df)" by simp
  from assms(2) l b have keys: "map fst ?z = columns df" by (rule keys_of_returns)
  from assms(1) have perm: "mset (sort_values ?z) = mset ?z"
    by (simp add: sorts_descending_def)
  from assms(2) have dc: "distinct (columns df)" by (simp add: frame_ok_def)
  from sorted_keys [OF perm keys dc]
  have d: "distinct ?L" and n: "length (sort_values ?z) = ?n" by simp_all
  then have nL: "length ?L = ?n" by simp
  have res: "strategy sort_values df config_dict
     = Inr (take ?m ?L, drop (?n - ?m) ?L)"
  proof -
    have "take (nat k) ?L = take ?m ?L"
      using nL by (simp add: min_def)
    moreover have "?n - nat k = ?n - ?m" by simp
    ultimately show ?thesis
      using strategy_result [OF assms(3,4,5,6,7), of sort_values] assms(8) n
      by (simp add: head_nonneg tail_nonneg take_map drop_map)
  qed
  have m: "?m \<le> length ?L" using nL by simp
  from overlap_iff [OF d m] nL
  have o: "set (take ?m ?L) \<inter> set (drop (?n - ?m) ?L) = {} \<longleftrightarrow> 2 * ?m \<le> ?n"
    by simp
  have "length (take ?m ?L) = ?m" using nL by simp
  moreover have "length (drop (?n - ?m) ?L) = ?m" using nL by simp
  moreover have "set (take ?m ?L) \<inter> set (drop (?n - ?m) ?L) \<noteq> {}"
    if "0 < ?n" "?n < 2 * nat k"
  proof -
    from that have "\<not> 2 * ?m \<le> ?n" by (simp add: min_def)
    with o show ?thesis by simp
  qed
  ultimately show ?thesis using res o by blast
qed

theorem strategy_candidate_counts_witness:
  "sorts_descending sort_desc \<and> frame_ok three_symbols
   \<and> strategy sort_desc three_symbols (config_dict_of (PInt 2) (PList [PInt 2]))
     = Inr ([''BTCUSDT'', ''ETHUSDT''], [''ETHUSDT'', ''XRPUSDT''])
   \<and> (\<exists>longs shorts.
           strategy sort_desc three_symbols (config_dict_of (PInt 2) (PList [PInt 2]))
             = Inr (longs, shorts)
         \<and> length longs = 2 \<and> length shorts = 2 \<and> set longs \<inter> set shorts \<noteq> {})"
proof -
  have f: "frame_ok three_symbols"
    by (simp add: frame_ok_def three_symbols_def)
  have v: "strategy sort_desc three_symbols (config_dict_of (PInt 2) (PList [PInt 2]))
     = Inr ([''BTCUSDT'', ''ETHUSDT''], [''ETHUSDT'', ''XRPUSDT''])"
    by code_simp
  have c1: "dict_get (config_dict_of (PInt 2) (PList [PInt 2])) ''strategy_config''
     = Inr (PDict [(''maximum_candidates'', PInt 2), (''minutes'', PList [PInt 2])])"
    by (simp add: config_dict_of_def dict_get_def)
  have c2: "dict_get (PDict [(''maximum_candidates'', PInt 2), (''minutes'', PList [PInt 2])])
      ''minutes'' = Inr (PList (PInt 2 # []))"
    and c3: "dict_get (PDict [(''maximum_candidates'', PInt 2), (''minutes'', PList [PInt 2])])
      ''maximum_candidates'' = Inr (PInt 2)"
    by (simp_all add: dict_get_def)
  have b: "(1::int) \<le> 2" "2 \<le> int (length (rows three_symbols))" "(0::int) \<le> 2"
    by (simp_all add: three_symbols_def)
  have n: "length (columns three_symbols) = 3"
    by (simp add: three_symbols_def)
  from strategy_candidate_counts [OF sorts_descending_sort_desc f c1 c2 c3 b]
  have "\<exists>longs shorts.
           strategy sort_desc three_symbols (config_dict_of (PInt 2) (PList [PInt 2]))
             = Inr (longs, shorts)
         \<and> length longs = 2 \<and> length shorts = 2 \<and> set longs \<inter> set shorts \<noteq> {}"
    by (simp add: n)
  with sorts_descending_sort_desc f v show ?thesis by blast
qed

end
